theory Spec2Isabelle
  imports Complex_Main "HOL-Library.Word"
begin

unbundle bit_operations_syntax

section \<open>Data model of the wrapper routines\<close>

text \<open>
  The wrappers under \<^verbatim>\<open>src/src\<close> validate their arguments, build a PaRSEC taskpool,
  hand it to the runtime and destroy it. A C \<^verbatim>\<open>int\<close> is 32 bits wide and is
  modelled as an \<^typ>\<open>int\<close> in that range; where the source multiplies two of
  them the product wraps around to 32 bits, and a byte count is taken in the
  64-bit \<^verbatim>\<open>size_t\<close>. The constants of \<^verbatim>\<open>dplasma_enum_t\<close> are a datatype, with
  one more constructor for every other integer a caller may pass. A pointer to a
  taskpool is an \<^typ>\<open>'a option\<close>, \<^const>\<open>None\<close> being \<^verbatim>\<open>NULL\<close>. Memory is taken to
  be available: \<^verbatim>\<open>malloc\<close> and \<^verbatim>\<open>calloc\<close> return a block.
\<close>

datatype dplasma_enum =
    dplasmaNoTrans | dplasmaTrans | dplasmaConjTrans
  | dplasmaUpper | dplasmaLower | dplasmaUpperLower
  | dplasmaNonUnit | dplasmaUnit
  | dplasmaMaxNorm | dplasmaOneNorm | dplasmaInfNorm | dplasmaFrobeniusNorm
  | dplasmaNoVec | dplasmaVec
  | dplasma_enum_other int

datatype parsec_matrix_type =
    PARSEC_MATRIX_COMPLEX_DOUBLE | PARSEC_MATRIX_COMPLEX_FLOAT
  | PARSEC_MATRIX_DOUBLE | PARSEC_MATRIX_FLOAT | PARSEC_MATRIX_INTEGER
  | PARSEC_MATRIX_BYTE

datatype parsec_matrix_storage = PARSEC_MATRIX_TILE | PARSEC_MATRIX_LAPACK

datatype parsec_datatype =
    parsec_datatype_double_complex_t | parsec_datatype_complex_t
  | parsec_datatype_double_t | parsec_datatype_float_t | parsec_datatype_int_t

text \<open>
  \<^verbatim>\<open>parsec_tiled_matrix_t\<close>, with the process grid of the block-cyclic descriptors
  that the wrappers read through a cast of the same pointer.
\<close>

record parsec_tiled_matrix =
  desc_dtype :: "32 word"
  desc_mtype :: parsec_matrix_type
  desc_myrank :: int
  desc_mb :: int
  desc_nb :: int
  desc_m :: int
  desc_n :: int
  desc_mt :: int
  desc_nt :: int
  grid_rows :: int
  grid_cols :: int
  grid_krows :: int
  grid_kcols :: int
  grid_ip :: int
  grid_jq :: int

text \<open>The arguments of one call of \<^verbatim>\<open>parsec_matrix_block_cyclic_init\<close>.\<close>

record parsec_matrix_block_cyclic =
  bc_mtype :: parsec_matrix_type
  bc_storage :: parsec_matrix_storage
  bc_myrank :: int
  bc_mb :: int
  bc_nb :: int
  bc_lm :: int
  bc_ln :: int
  bc_i :: int
  bc_j :: int
  bc_m :: int
  bc_n :: int
  bc_P :: int
  bc_Q :: int
  bc_kp :: int
  bc_kq :: int
  bc_ip :: int
  bc_jq :: int

text \<open>
  The two descriptor-type flags tested by the norm wrappers come from a PaRSEC
  header that is not among the sources; they are parameters of the model.
\<close>

record parsec_matrix_dtypes =
  parsec_matrix_block_cyclic_type :: "32 word"
  parsec_matrix_sym_block_cyclic_type :: "32 word"


text \<open>
  A taskpool is the value built by one of the generated or library constructors,
  none of which is among the sources: each is taken to return a fresh object that
  holds its arguments (the wrappers write through the returned pointer without
  testing it). The \<^verbatim>\<open>result\<close> pointer passed at construction is left out; what a
  run stores there is a parameter of the blocking wrappers.
\<close>

datatype taskpool =
    parsec_zlansy_new int int dplasma_enum dplasma_enum dplasma_enum
      parsec_tiled_matrix parsec_matrix_block_cyclic
  | parsec_zlange_one_cyclic_new int int dplasma_enum dplasma_enum dplasma_enum
      parsec_tiled_matrix parsec_matrix_block_cyclic
  | parsec_zlange_frb_cyclic_new int int dplasma_enum dplasma_enum dplasma_enum
      parsec_tiled_matrix parsec_matrix_block_cyclic
  | parsec_zlanm2_new int int parsec_matrix_block_cyclic parsec_tiled_matrix
  | parsec_map_new dplasma_enum parsec_tiled_matrix nat "nat option"
  | parsec_ztrsmpl_incpiv_new parsec_tiled_matrix parsec_tiled_matrix
      parsec_tiled_matrix parsec_tiled_matrix
  | dplasma_zherbt_New dplasma_enum int parsec_tiled_matrix parsec_matrix_block_cyclic
  | parsec_diag_band_to_rect_new parsec_tiled_matrix parsec_tiled_matrix int int int int int
  | dplasma_zhbrdt_New parsec_tiled_matrix
  | parsec_compose taskpool taskpool
  | parsec_apply_new dplasma_enum parsec_tiled_matrix nat

text \<open>
  Everything else a wrapper does is an event of its trace, in program order. The
  alignment argument of the arena calls is the same constant everywhere and is
  left out; a size is the number of bytes the source computes, a \<^verbatim>\<open>size_t\<close>.
\<close>

datatype event =
    dplasma_error string string
  | malloc_block_cyclic
  | parsec_matrix_block_cyclic_init parsec_matrix_block_cyclic
  | parsec_data_allocate parsec_matrix_block_cyclic
  | parsec_data_collection_set_key string
  | dplasma_add2arena_tile string "64 word" parsec_datatype int
  | dplasma_add2arena_rectangle string "64 word" parsec_datatype int int int
  | parsec_context_add_taskpool taskpool
  | dplasma_wait_until_completion
  | parsec_tiled_matrix_destroy parsec_matrix_block_cyclic
  | free_block_cyclic parsec_matrix_block_cyclic
  | free_op_args nat
  | malloc_zplgsy_args complex "64 word"
  | parsec_apply_Destruct taskpool
  | dplasma_matrix_del2arena string
  | parsec_taskpool_free taskpool

text \<open>
  \<^verbatim>\<open>dplasma_imax\<close> comes from a header that is not among the sources and is read
  as the larger of two integers; the sizes are those of the C types on the 64-bit
  platforms the library is built for.
\<close>

definition dplasma_imax :: "int \<Rightarrow> int \<Rightarrow> int" where
  "dplasma_imax a b = (if a > b then a else b)"

definition sizeof_dplasma_complex64_t :: int where "sizeof_dplasma_complex64_t = 16"
definition sizeof_dplasma_complex32_t :: int where "sizeof_dplasma_complex32_t = 8"
definition sizeof_double :: int where "sizeof_double = 8"
definition sizeof_float :: int where "sizeof_float = 4"
definition sizeof_int :: int where "sizeof_int = 4"

text \<open>C division of \<^verbatim>\<open>int\<close> truncates towards zero.\<close>

definition c_div :: "int \<Rightarrow> int \<Rightarrow> int" where
  "c_div a b = sgn a * sgn b * (\<bar>a\<bar> div \<bar>b\<bar>)"

text \<open>
  The value an \<^verbatim>\<open>int\<close> expression leaves: the mathematical value wrapped around
  to 32 bits, two's complement. In a byte count such as
  \<^verbatim>\<open>A->mb*A->nb*sizeof(double)\<close> the factors to the left of \<^verbatim>\<open>sizeof\<close> are
  multiplied in \<^verbatim>\<open>int\<close>, the result is converted to \<^verbatim>\<open>size_t\<close> (a negative value
  becomes a large one) and the last product is taken modulo \<open>2\<^sup>6\<^sup>4\<close>.
\<close>

definition c_int :: "int \<Rightarrow> int" where
  "c_int v = sint (word_of_int v :: 32 word)"

definition c_bytes :: "int \<Rightarrow> int \<Rightarrow> 64 word" where
  "c_bytes n sz = word_of_int (c_int n) * word_of_int sz"

text \<open>The legality tests the wrappers repeat.\<close>

definition illegal_norm :: "dplasma_enum \<Rightarrow> bool" where
  "illegal_norm nrm \<longleftrightarrow>
     nrm \<noteq> dplasmaMaxNorm \<and> nrm \<noteq> dplasmaOneNorm
     \<and> nrm \<noteq> dplasmaInfNorm \<and> nrm \<noteq> dplasmaFrobeniusNorm"

definition illegal_uplo :: "dplasma_enum \<Rightarrow> bool" where
  "illegal_uplo uplo \<longleftrightarrow> uplo \<noteq> dplasmaUpper \<and> uplo \<noteq> dplasmaLower"

definition illegal_uplo_full :: "dplasma_enum \<Rightarrow> bool" where
  "illegal_uplo_full uplo \<longleftrightarrow>
     uplo \<noteq> dplasmaUpperLower \<and> uplo \<noteq> dplasmaUpper \<and> uplo \<noteq> dplasmaLower"

definition illegal_jobz :: "dplasma_enum \<Rightarrow> bool" where
  "illegal_jobz jobz \<longleftrightarrow> jobz \<noteq> dplasmaNoVec \<and> jobz \<noteq> dplasmaVec"

definition not_block_cyclic :: "parsec_matrix_dtypes \<Rightarrow> parsec_tiled_matrix \<Rightarrow> bool" where
  "not_block_cyclic K A \<longleftrightarrow> desc_dtype A AND parsec_matrix_block_cyclic_type K = 0"

definition not_block_or_sym_cyclic :: "parsec_matrix_dtypes \<Rightarrow> parsec_tiled_matrix \<Rightarrow> bool" where
  "not_block_or_sym_cyclic K A \<longleftrightarrow>
     desc_dtype A AND
       (parsec_matrix_block_cyclic_type K OR parsec_matrix_sym_block_cyclic_type K) = 0"

text \<open>
  The task distribution descriptor \<^verbatim>\<open>Tdist\<close> of the norm wrappers, as the
  arguments of its initialization; the two fields the source sets to \<^verbatim>\<open>NULL\<close>
  afterwards are not part of the record.
\<close>

definition Tdist_init :: "parsec_tiled_matrix \<Rightarrow> int \<Rightarrow> int \<Rightarrow> parsec_matrix_block_cyclic" where
  "Tdist_init A m n =
     \<lparr> bc_mtype = PARSEC_MATRIX_DOUBLE, bc_storage = PARSEC_MATRIX_TILE,
       bc_myrank = desc_myrank A, bc_mb = 1, bc_nb = 1, bc_lm = m, bc_ln = n,
       bc_i = 0, bc_j = 0, bc_m = m, bc_n = n,
       bc_P = grid_rows A, bc_Q = grid_cols A, bc_kp = 1, bc_kq = 1,
       bc_ip = grid_ip A, bc_jq = grid_jq A \<rparr>"

section \<open>\<^verbatim>\<open>zlansy_wrapper.c\<close>\<close>

definition dplasma_zlansy_New ::
  "parsec_matrix_dtypes \<Rightarrow> dplasma_enum \<Rightarrow> dplasma_enum \<Rightarrow> parsec_tiled_matrix
   \<Rightarrow> taskpool option \<times> event list"
where
  "dplasma_zlansy_New K nrm uplo A =
     (if illegal_norm nrm
      then (None, [dplasma_error ''dplasma_zlansy'' ''illegal value of norm''])
      else if illegal_uplo uplo
      then (None, [dplasma_error ''dplasma_zlansy'' ''illegal value of uplo''])
      else if not_block_or_sym_cyclic K A
      then (None, [dplasma_error ''dplasma_zlansy'' ''illegal type of descriptor for A''])
      else
        let P = grid_rows A; Q = grid_cols A;
            (mb, nb, elt) =
              (case nrm of
                 dplasmaFrobeniusNorm \<Rightarrow> (2, 1, 2)
               | dplasmaInfNorm \<Rightarrow> (desc_mb A, 1, 1)
               | dplasmaOneNorm \<Rightarrow> (desc_mb A, 1, 1)
               | _ \<Rightarrow> (1, 1, 1));
            m = dplasma_imax (desc_mt A) P;
            Tdist = Tdist_init A m (c_int (P * Q));
            parsec_zlansy = parsec_zlansy_new P Q nrm uplo dplasmaTrans A Tdist
        in (Some parsec_zlansy,
            [malloc_block_cyclic,
             parsec_matrix_block_cyclic_init Tdist,
             dplasma_add2arena_tile ''PARSEC_zlansy_DEFAULT_ADT_IDX''
               (c_bytes (desc_mb A * desc_nb A) sizeof_dplasma_complex64_t)
               parsec_datatype_double_complex_t (desc_mb A),
             dplasma_add2arena_rectangle ''PARSEC_zlansy_COL_ADT_IDX''
               (c_bytes (mb * nb) sizeof_double) parsec_datatype_double_t mb nb (- 1),
             dplasma_add2arena_rectangle ''PARSEC_zlansy_ELT_ADT_IDX''
               (c_bytes elt sizeof_double) parsec_datatype_double_t elt 1 (- 1)]))"

fun dplasma_zlansy_Destruct :: "taskpool \<Rightarrow> event list" where
  "dplasma_zlansy_Destruct (parsec_zlansy_new P Q nrm uplo tr A Tdist) =
     [parsec_tiled_matrix_destroy Tdist, free_block_cyclic Tdist,
      dplasma_matrix_del2arena ''PARSEC_zlansy_DEFAULT_ADT_IDX'',
      dplasma_matrix_del2arena ''PARSEC_zlansy_COL_ADT_IDX'',
      dplasma_matrix_del2arena ''PARSEC_zlansy_ELT_ADT_IDX'',
      parsec_taskpool_free (parsec_zlansy_new P Q nrm uplo tr A Tdist)]"
| "dplasma_zlansy_Destruct tp = [parsec_taskpool_free tp]"

text \<open>
  The blocking wrappers take as parameter \<open>run\<close> the value a run of the taskpool
  leaves in \<^verbatim>\<open>result\<close>, a \<^verbatim>\<open>double\<close> that starts at 0 and is modelled as a real.
\<close>

definition dplasma_zlansy ::
  "parsec_matrix_dtypes \<Rightarrow> (taskpool \<Rightarrow> real) \<Rightarrow> dplasma_enum \<Rightarrow> dplasma_enum
   \<Rightarrow> parsec_tiled_matrix \<Rightarrow> real \<times> event list"
where
  "dplasma_zlansy K run nrm uplo A =
     (if illegal_norm nrm
      then (- 2, [dplasma_error ''dplasma_zlansy'' ''illegal value of norm''])
      else if illegal_uplo uplo
      then (- 3, [dplasma_error ''dplasma_zlansy'' ''illegal value of uplo''])
      else if not_block_or_sym_cyclic K A
      then (- 4, [dplasma_error ''dplasma_zlansy'' ''illegal type of descriptor for A''])
      else if desc_m A \<noteq> desc_n A
      then (- 5, [dplasma_error ''dplasma_zlansy'' ''illegal matrix A (not square)''])
      else
        (case dplasma_zlansy_New K nrm uplo A of
           (Some parsec_zlansy, evs) \<Rightarrow>
             (run parsec_zlansy,
              evs @ [parsec_context_add_taskpool parsec_zlansy, dplasma_wait_until_completion]
                  @ dplasma_zlansy_Destruct parsec_zlansy)
         | (None, evs) \<Rightarrow> (0, evs)))"

section \<open>\<^verbatim>\<open>zlantr_wrapper.c\<close>\<close>

text \<open>Neither function tests \<^verbatim>\<open>uplo\<close> or \<^verbatim>\<open>diag\<close>; both are passed on as they are.\<close>

definition dplasma_zlantr_New ::
  "parsec_matrix_dtypes \<Rightarrow> dplasma_enum \<Rightarrow> dplasma_enum \<Rightarrow> dplasma_enum
   \<Rightarrow> parsec_tiled_matrix \<Rightarrow> taskpool option \<times> event list"
where
  "dplasma_zlantr_New K nrm uplo diag A =
     (if illegal_norm nrm
      then (None, [dplasma_error ''dplasma_zlantr'' ''illegal value of norm''])
      else if not_block_cyclic K A
      then (None, [dplasma_error ''dplasma_zlantr'' ''illegal type of descriptor for A''])
      else
        let P = grid_rows A; Q = grid_cols A;
            (mb, nb, m, n, elt) =
              (case nrm of
                 dplasmaFrobeniusNorm \<Rightarrow> (2, 1, dplasma_imax (desc_mt A) P, Q, 2)
               | dplasmaInfNorm \<Rightarrow> (desc_mb A, 1, dplasma_imax (desc_mt A) P, Q, 1)
               | dplasmaOneNorm \<Rightarrow> (1, desc_nb A, P, dplasma_imax (desc_nt A) Q, 1)
               | _ \<Rightarrow> (1, 1, dplasma_imax (desc_mt A) P, Q, 1));
            Tdist = Tdist_init A m n;
            parsec_zlantr =
              (case nrm of
                 dplasmaOneNorm \<Rightarrow> parsec_zlange_one_cyclic_new P Q nrm uplo diag A Tdist
               | _ \<Rightarrow> parsec_zlange_frb_cyclic_new P Q nrm uplo diag A Tdist)
        in (Some parsec_zlantr,
            [malloc_block_cyclic,
             parsec_matrix_block_cyclic_init Tdist,
             dplasma_add2arena_tile ''PARSEC_zlange_frb_cyclic_DEFAULT_ADT_IDX''
               (c_bytes (desc_mb A * desc_nb A) sizeof_dplasma_complex64_t)
               parsec_datatype_double_complex_t (desc_mb A),
             dplasma_add2arena_rectangle ''PARSEC_zlange_frb_cyclic_COL_ADT_IDX''
               (c_bytes (mb * nb) sizeof_double) parsec_datatype_double_t mb nb (- 1),
             dplasma_add2arena_rectangle ''PARSEC_zlange_frb_cyclic_ELT_ADT_IDX''
               (c_bytes elt sizeof_double) parsec_datatype_double_t elt 1 (- 1)]))"

text \<open>
  The destructor reads every taskpool through the layout of the Frobenius one,
  also the taskpool built for the one norm.
\<close>

fun dplasma_zlantr_Destruct :: "taskpool \<Rightarrow> event list" where
  "dplasma_zlantr_Destruct (parsec_zlange_frb_cyclic_new P Q nrm uplo diag A Tdist) =
     [parsec_tiled_matrix_destroy Tdist, free_block_cyclic Tdist,
      dplasma_matrix_del2arena ''PARSEC_zlange_frb_cyclic_DEFAULT_ADT_IDX'',
      dplasma_matrix_del2arena ''PARSEC_zlange_frb_cyclic_COL_ADT_IDX'',
      dplasma_matrix_del2arena ''PARSEC_zlange_frb_cyclic_ELT_ADT_IDX'',
      parsec_taskpool_free (parsec_zlange_frb_cyclic_new P Q nrm uplo diag A Tdist)]"
| "dplasma_zlantr_Destruct (parsec_zlange_one_cyclic_new P Q nrm uplo diag A Tdist) =
     [parsec_tiled_matrix_destroy Tdist, free_block_cyclic Tdist,
      dplasma_matrix_del2arena ''PARSEC_zlange_frb_cyclic_DEFAULT_ADT_IDX'',
      dplasma_matrix_del2arena ''PARSEC_zlange_frb_cyclic_COL_ADT_IDX'',
      dplasma_matrix_del2arena ''PARSEC_zlange_frb_cyclic_ELT_ADT_IDX'',
      parsec_taskpool_free (parsec_zlange_one_cyclic_new P Q nrm uplo diag A Tdist)]"
| "dplasma_zlantr_Destruct tp = [parsec_taskpool_free tp]"

definition dplasma_zlantr ::
  "parsec_matrix_dtypes \<Rightarrow> (taskpool \<Rightarrow> real) \<Rightarrow> dplasma_enum \<Rightarrow> dplasma_enum
   \<Rightarrow> dplasma_enum \<Rightarrow> parsec_tiled_matrix \<Rightarrow> real \<times> event list"
where
  "dplasma_zlantr K run nrm uplo diag A =
     (if illegal_norm nrm
      then (- 2, [dplasma_error ''dplasma_zlantr'' ''illegal value of norm''])
      else if not_block_cyclic K A
      then (- 3, [dplasma_error ''dplasma_zlantr'' ''illegal type of descriptor for A''])
      else
        (case dplasma_zlantr_New K nrm uplo diag A of
           (Some parsec_zlantr, evs) \<Rightarrow>
             (run parsec_zlantr,
              evs @ [parsec_context_add_taskpool parsec_zlantr, dplasma_wait_until_completion]
                  @ dplasma_zlantr_Destruct parsec_zlantr)
         | (None, evs) \<Rightarrow> (0, evs)))"

section \<open>\<^verbatim>\<open>zlanm2_wrapper.c\<close>\<close>

text \<open>
  \<^verbatim>\<open>info\<close> may be \<^verbatim>\<open>NULL\<close>: the cell it points to is an \<^typ>\<open>int option\<close>, \<^const>\<open>None\<close>
  for the null pointer. The constructor stores -1 there before it builds the
  taskpool; a run may store a value of its own, the second component of \<open>run\<close>.
\<close>

definition dplasma_zlanm2_New ::
  "parsec_matrix_dtypes \<Rightarrow> parsec_tiled_matrix \<Rightarrow> int option
   \<Rightarrow> taskpool option \<times> int option \<times> event list"
where
  "dplasma_zlanm2_New K A info =
     (if not_block_cyclic K A
      then (None, info, [dplasma_error ''dplasma_zlanm2'' ''illegal type of descriptor for A''])
      else
        let P = grid_rows A; Q = grid_cols A;
            mb = desc_mb A; nb = desc_nb A;
            m = dplasma_imax (desc_mt A) P;
            n = dplasma_imax (desc_nt A) Q;
            elt = 2;
            Tdist = Tdist_init A m n;
            info1 = (case info of None \<Rightarrow> None | Some v \<Rightarrow> Some (- 1));
            parsec_zlanm2 = parsec_zlanm2_new P Q Tdist A
        in (Some parsec_zlanm2, info1,
            [malloc_block_cyclic,
             parsec_matrix_block_cyclic_init Tdist,
             dplasma_add2arena_tile ''PARSEC_zlanm2_DEFAULT_ADT_IDX''
               (c_bytes (desc_mb A * desc_nb A) sizeof_dplasma_complex64_t)
               parsec_datatype_double_complex_t (desc_mb A),
             dplasma_add2arena_rectangle ''PARSEC_zlanm2_ZCOL_ADT_IDX''
               (c_bytes mb sizeof_dplasma_complex64_t) parsec_datatype_double_complex_t mb 1 (- 1),
             dplasma_add2arena_rectangle ''PARSEC_zlanm2_ZROW_ADT_IDX''
               (c_bytes nb sizeof_dplasma_complex64_t) parsec_datatype_double_complex_t 1 nb (- 1),
             dplasma_add2arena_rectangle ''PARSEC_zlanm2_DROW_ADT_IDX''
               (c_bytes nb sizeof_double) parsec_datatype_double_t 1 nb (- 1),
             dplasma_add2arena_rectangle ''PARSEC_zlanm2_ELT_ADT_IDX''
               (c_bytes elt sizeof_double) parsec_datatype_double_t elt 1 (- 1)]))"

fun dplasma_zlanm2_Destruct :: "taskpool \<Rightarrow> event list" where
  "dplasma_zlanm2_Destruct (parsec_zlanm2_new P Q Tdist A) =
     [parsec_tiled_matrix_destroy Tdist, free_block_cyclic Tdist,
      dplasma_matrix_del2arena ''PARSEC_zlanm2_DEFAULT_ADT_IDX'',
      dplasma_matrix_del2arena ''PARSEC_zlanm2_ZCOL_ADT_IDX'',
      dplasma_matrix_del2arena ''PARSEC_zlanm2_ZROW_ADT_IDX'',
      dplasma_matrix_del2arena ''PARSEC_zlanm2_DROW_ADT_IDX'',
      dplasma_matrix_del2arena ''PARSEC_zlanm2_ELT_ADT_IDX'',
      parsec_taskpool_free (parsec_zlanm2_new P Q Tdist A)]"
| "dplasma_zlanm2_Destruct tp = [parsec_taskpool_free tp]"

definition dplasma_zlanm2 ::
  "parsec_matrix_dtypes \<Rightarrow> (taskpool \<Rightarrow> real \<times> int option) \<Rightarrow> parsec_tiled_matrix
   \<Rightarrow> int option \<Rightarrow> real \<times> int option \<times> event list"
where
  "dplasma_zlanm2 K run A info =
     (if not_block_cyclic K A
      then (- 3, info, [dplasma_error ''dplasma_zlanm2'' ''illegal type of descriptor for A''])
      else
        (case dplasma_zlanm2_New K A info of
           (Some parsec_zlanm2, info1, evs) \<Rightarrow>
             (fst (run parsec_zlanm2),
              (case (info1, snd (run parsec_zlanm2)) of
                 (Some v, Some its) \<Rightarrow> Some its
               | _ \<Rightarrow> info1),
              evs @ [parsec_context_add_taskpool parsec_zlanm2, dplasma_wait_until_completion]
                  @ dplasma_zlanm2_Destruct parsec_zlanm2)
         | (None, info1, evs) \<Rightarrow> (0, info1, evs)))"

section \<open>\<^verbatim>\<open>map_wrapper.c\<close>\<close>

text \<open>
  The operator is a function pointer and its arguments a \<^verbatim>\<open>void\<close> pointer that may
  be null: a handle and an optional handle.
\<close>

definition dplasma_map_New ::
  "dplasma_enum \<Rightarrow> parsec_tiled_matrix \<Rightarrow> nat \<Rightarrow> nat option \<Rightarrow> taskpool option \<times> event list"
where
  "dplasma_map_New uplo A operator op_args =
     (if illegal_uplo_full uplo
      then (None, [dplasma_error ''dplasma_map'' ''illegal value of uplo''])
      else
        let parsec_map = parsec_map_new uplo A operator op_args in
        (Some parsec_map,
         [case desc_mtype A of
            PARSEC_MATRIX_COMPLEX_DOUBLE \<Rightarrow>
              dplasma_add2arena_tile ''PARSEC_map_DEFAULT_ADT_IDX''
                (c_bytes (desc_mb A * desc_nb A) sizeof_dplasma_complex64_t)
                parsec_datatype_double_complex_t (desc_mb A)
          | PARSEC_MATRIX_COMPLEX_FLOAT \<Rightarrow>
              dplasma_add2arena_tile ''PARSEC_map_DEFAULT_ADT_IDX''
                (c_bytes (desc_mb A * desc_nb A) sizeof_dplasma_complex32_t)
                parsec_datatype_complex_t (desc_mb A)
          | PARSEC_MATRIX_DOUBLE \<Rightarrow>
              dplasma_add2arena_tile ''PARSEC_map_DEFAULT_ADT_IDX''
                (c_bytes (desc_mb A * desc_nb A) sizeof_double)
                parsec_datatype_double_t (desc_mb A)
          | PARSEC_MATRIX_FLOAT \<Rightarrow>
              dplasma_add2arena_tile ''PARSEC_map_DEFAULT_ADT_IDX''
                (c_bytes (desc_mb A * desc_nb A) sizeof_float)
                parsec_datatype_float_t (desc_mb A)
          | _ \<Rightarrow>
              dplasma_add2arena_tile ''PARSEC_map_DEFAULT_ADT_IDX''
                (c_bytes (desc_mb A * desc_nb A) sizeof_int)
                parsec_datatype_int_t (desc_mb A)]))"

fun dplasma_map_Destruct :: "taskpool \<Rightarrow> event list" where
  "dplasma_map_Destruct (parsec_map_new uplo A operator op_args) =
     (case op_args of None \<Rightarrow> [] | Some a \<Rightarrow> [free_op_args a])
     @ [dplasma_matrix_del2arena ''PARSEC_map_DEFAULT_ADT_IDX'',
        parsec_taskpool_free (parsec_map_new uplo A operator op_args)]"
| "dplasma_map_Destruct tp = [parsec_taskpool_free tp]"

definition dplasma_map ::
  "dplasma_enum \<Rightarrow> parsec_tiled_matrix \<Rightarrow> nat \<Rightarrow> nat option \<Rightarrow> int \<times> event list"
where
  "dplasma_map uplo A operator op_args =
     (if illegal_uplo_full uplo
      then (- 2, [dplasma_error ''dplasma_map'' ''illegal value of uplo''])
      else
        (case dplasma_map_New uplo A operator op_args of
           (Some parsec_map, evs) \<Rightarrow>
             (0, evs @ [parsec_context_add_taskpool parsec_map, dplasma_wait_until_completion]
                     @ dplasma_map_Destruct parsec_map)
         | (None, evs) \<Rightarrow> (0, evs)))"

section \<open>\<^verbatim>\<open>ztrsmpl_incpiv_wrapper.c\<close>\<close>

definition tiles_differ :: "parsec_tiled_matrix \<Rightarrow> parsec_tiled_matrix \<Rightarrow> bool" where
  "tiles_differ A L \<longleftrightarrow> desc_mt A \<noteq> desc_mt L \<or> desc_nt A \<noteq> desc_nt L"

definition dplasma_ztrsmpl_incpiv_New ::
  "parsec_tiled_matrix \<Rightarrow> parsec_tiled_matrix \<Rightarrow> parsec_tiled_matrix \<Rightarrow> parsec_tiled_matrix
   \<Rightarrow> taskpool option \<times> event list"
where
  "dplasma_ztrsmpl_incpiv_New A L IPIV B =
     (if tiles_differ A L
      then (None, [dplasma_error ''dplasma_ztrsmpl_incpiv_New''
                     ''L doesn't have the same number of tiles as A''])
      else if tiles_differ A IPIV
      then (None, [dplasma_error ''dplasma_ztrsmpl_incpiv_New''
                     ''IPIV doesn't have the same number of tiles as A''])
      else
        let parsec_trsmpl_incpiv = parsec_ztrsmpl_incpiv_new A L IPIV B in
        (Some parsec_trsmpl_incpiv,
         [dplasma_add2arena_tile ''PARSEC_ztrsmpl_incpiv_DEFAULT_ADT_IDX''
            (c_bytes (desc_mb A * desc_nb A) sizeof_dplasma_complex64_t)
            parsec_datatype_double_complex_t (desc_mb A),
          dplasma_add2arena_rectangle ''PARSEC_ztrsmpl_incpiv_PIVOT_ADT_IDX''
            (c_bytes (desc_mb A) sizeof_int) parsec_datatype_int_t (desc_mb A) 1 (- 1),
          dplasma_add2arena_rectangle ''PARSEC_ztrsmpl_incpiv_SMALL_L_ADT_IDX''
            (c_bytes (desc_mb L * desc_nb L) sizeof_dplasma_complex64_t)
            parsec_datatype_double_complex_t (desc_mb L) (desc_nb L) (- 1)]))"

definition dplasma_ztrsmpl_incpiv_Destruct :: "taskpool \<Rightarrow> event list" where
  "dplasma_ztrsmpl_incpiv_Destruct tp =
     [dplasma_matrix_del2arena ''PARSEC_ztrsmpl_incpiv_DEFAULT_ADT_IDX'',
      dplasma_matrix_del2arena ''PARSEC_ztrsmpl_incpiv_PIVOT_ADT_IDX'',
      dplasma_matrix_del2arena ''PARSEC_ztrsmpl_incpiv_SMALL_L_ADT_IDX'',
      parsec_taskpool_free tp]"

definition dplasma_ztrsmpl_incpiv ::
  "parsec_tiled_matrix \<Rightarrow> parsec_tiled_matrix \<Rightarrow> parsec_tiled_matrix \<Rightarrow> parsec_tiled_matrix
   \<Rightarrow> int \<times> event list"
where
  "dplasma_ztrsmpl_incpiv A L IPIV B =
     (if tiles_differ A L
      then (- 3, [dplasma_error ''dplasma_ztrsmpl_incpiv''
                    ''L doesn't have the same number of tiles as A''])
      else if tiles_differ A IPIV
      then (- 4, [dplasma_error ''dplasma_ztrsmpl_incpiv''
                    ''IPIV doesn't have the same number of tiles as A''])
      else
        (case dplasma_ztrsmpl_incpiv_New A L IPIV B of
           (Some parsec_ztrsmpl_incpiv, evs) \<Rightarrow>
             (0, evs @ [parsec_context_add_taskpool parsec_ztrsmpl_incpiv,
                        dplasma_wait_until_completion]
                     @ dplasma_ztrsmpl_incpiv_Destruct parsec_ztrsmpl_incpiv)
         | (None, evs) \<Rightarrow> (- 101, evs)))"

section \<open>\<^verbatim>\<open>zheev_wrapper.c\<close>\<close>

text \<open>
  The constructor returns the taskpool and the value it leaves in \<^verbatim>\<open>*info\<close>, which
  it sets to 0 on entry. \<^verbatim>\<open>Z\<close> is unused by the source.
\<close>

definition dplasma_zheev_New ::
  "dplasma_enum \<Rightarrow> dplasma_enum \<Rightarrow> parsec_tiled_matrix \<Rightarrow> parsec_tiled_matrix
   \<Rightarrow> taskpool option \<times> int \<times> event list"
where
  "dplasma_zheev_New jobz uplo A W =
     (if illegal_jobz jobz
      then (None, - 1, [dplasma_error ''dplasma_zheev_New'' ''illegal value of jobz''])
      else if illegal_uplo uplo
      then (None, - 2, [dplasma_error ''dplasma_zheev_New'' ''illegal value of uplo''])
      else if jobz = dplasmaVec
      then (None, - 1, [dplasma_error ''dplasma_zheev_New'' ''dplasmaVec not implemented (yet)''])
      else if dplasmaLower = uplo
      then
        let ib = c_div (desc_nb A) 3;
            T = \<lparr> bc_mtype = PARSEC_MATRIX_COMPLEX_DOUBLE, bc_storage = PARSEC_MATRIX_TILE,
                  bc_myrank = desc_myrank A, bc_mb = ib, bc_nb = desc_nb A,
                  bc_lm = c_int (desc_mt A * ib), bc_ln = desc_n A, bc_i = 0, bc_j = 0,
                  bc_m = c_int (desc_mt A * ib), bc_n = desc_n A,
                  bc_P = grid_rows A, bc_Q = grid_cols A,
                  bc_kp = grid_krows A, bc_kq = grid_krows A,
                  bc_ip = grid_ip A, bc_jq = grid_jq A \<rparr>;
            zherbt_obj = dplasma_zherbt_New uplo ib A T;
            band2rect_obj =
              parsec_diag_band_to_rect_new A W (desc_mt A) (desc_nt A) (desc_mb A) (desc_nb A)
                sizeof_dplasma_complex64_t;
            zhbrdt_obj = dplasma_zhbrdt_New W;
            zheev_compound = parsec_compose (parsec_compose zherbt_obj band2rect_obj) zhbrdt_obj
        in (Some zheev_compound, 0,
            [malloc_block_cyclic,
             parsec_matrix_block_cyclic_init T,
             parsec_data_allocate T,
             parsec_data_collection_set_key ''zheev_dcT'',
             dplasma_add2arena_tile ''PARSEC_diag_band_to_rect_DEFAULT_ADT_IDX''
               (c_bytes (desc_mb A * desc_nb A) sizeof_dplasma_complex64_t)
               parsec_datatype_double_complex_t (desc_mb A)])
      else (None, - 2, [dplasma_error ''dplasma_zheev_New'' ''dplasmaUpper not implemented (yet)'']))"

definition dplasma_zheev_Destruct :: "taskpool \<Rightarrow> event list" where
  "dplasma_zheev_Destruct tp = [parsec_taskpool_free tp]"

definition dplasma_zheev ::
  "dplasma_enum \<Rightarrow> dplasma_enum \<Rightarrow> parsec_tiled_matrix \<Rightarrow> parsec_tiled_matrix
   \<Rightarrow> int \<times> event list"
where
  "dplasma_zheev jobz uplo A W =
     (if illegal_jobz jobz
      then (- 1, [dplasma_error ''dplasma_zheev'' ''illegal value of jobz''])
      else if illegal_uplo uplo
      then (- 2, [dplasma_error ''dplasma_zheev'' ''illegal value of uplo''])
      else
        (case dplasma_zheev_New jobz uplo A W of
           (Some parsec_zheev, info, evs) \<Rightarrow>
             (info, evs @ [parsec_context_add_taskpool parsec_zheev,
                           dplasma_wait_until_completion]
                        @ dplasma_zheev_Destruct parsec_zheev)
         | (None, info, evs) \<Rightarrow> (- 101, evs)))"

section \<open>The symmetric generator \<^verbatim>\<open>dplasma_zplgsy\<close>\<close>




section \<open>The LU solver driver \<^verbatim>\<open>dplasma_zgesv_1d\<close>\<close>

text \<open>
  \<^verbatim>\<open>dplasma_zgetrf_1d\<close> and \<^verbatim>\<open>dplasma_zgetrs\<close> are not among the sources. The
  factorization is a parameter that maps the distributed data (A, IPIV, B) to
  its \<^verbatim>\<open>info\<close> and the updated data; the solve is a parameter that updates the
  data, its call being a statement of the source. The calls made are recorded.
  The branch under \<^verbatim>\<open>#ifdef PARSEC_COMPOSITION\<close> carries
  \<^verbatim>\<open>#warning "Not implemented"\<close> and no source defines that macro: the compiled
  function is the \<^verbatim>\<open>#else\<close> branch, which is the one modelled.
\<close>

datatype solver_call = Call_zgetrf_1d | Call_zgetrs dplasma_enum

definition dplasma_zgesv_1d ::
  "('w \<Rightarrow> int \<times> 'w) \<Rightarrow> (dplasma_enum \<Rightarrow> 'w \<Rightarrow> 'w) \<Rightarrow> 'w \<Rightarrow> int \<times> 'w \<times> solver_call list"
where
  "dplasma_zgesv_1d dplasma_zgetrf_1d dplasma_zgetrs w =
     (let (info, w1) = dplasma_zgetrf_1d w in
      if info = 0
      then (info, dplasma_zgetrs dplasmaNoTrans w1, [Call_zgetrf_1d, Call_zgetrs dplasmaNoTrans])
      else (info, w1, [Call_zgetrf_1d]))"

section \<open>Error reports in a trace\<close>

text \<open>The events of a trace that are calls of \<^verbatim>\<open>dplasma_error\<close>.\<close>

fun is_dplasma_error :: "event \<Rightarrow> bool" where
  "is_dplasma_error (dplasma_error f msg) = True"
| "is_dplasma_error e = False"

definition error_reports :: "event list \<Rightarrow> event list" where
  "error_reports evs = filter is_dplasma_error evs"

section \<open>The reduction-tree resolver\<close>

text \<open>
  Modelled from the spec: the reduction-tree resolver. The sources hold only a
  call of \<^verbatim>\<open>dplasma_hqr_init\<close> in a test driver; the resolver that call builds and
  its queries are not among them. The definitions of this section follow the
  words of the specification (its data model, its sections on the local and the
  global tree and on the queries, and its example).
\<close>

datatype TreeKind = FLAT | BINARY | GREEDY | FIBONACCI

datatype KernelKind = PANEL | DOUBLE

datatype ResolverError = ConfigError | OutOfRangeError

record TreeDescriptor =
  td_rows :: nat
  td_cols :: nat
  td_domainGrid :: "nat \<times> nat"
  td_localKind :: TreeKind
  td_globalKind :: TreeKind
  td_localSize :: nat
  td_domino :: bool
  td_roundRobin :: bool

text \<open>
  Modelled from the spec: the invariant of a descriptor (rows, local size and
  grid dimensions at least 1; domino only with a flat or binary global tree).
\<close>

definition valid_descriptor :: "TreeDescriptor \<Rightarrow> bool" where
  "valid_descriptor T \<longleftrightarrow>
     1 \<le> td_rows T \<and> 1 \<le> td_localSize T
     \<and> 1 \<le> fst (td_domainGrid T) \<and> 1 \<le> snd (td_domainGrid T)
     \<and> (td_domino T \<longrightarrow> td_globalKind T = FLAT \<or> td_globalKind T = BINARY)"

text \<open>
  Modelled from the spec: the shapes of the trees, as the pivot of a row at
  relative index \<open>i\<close>, the root being index 0. A flat tree sends every row to
  the root. A binary tree pairs rows at distance 1, then 2, then 4: a row leaves
  at the distance that is the largest power of two dividing its index. The spec
  says of the greedy and of the Fibonacci tree what they are for and not which
  row goes where: their pivots are parameters of the model, as functions of the
  size of the tree and the index.
\<close>

record OpenShapes =
  greedyPivot :: "nat \<Rightarrow> nat \<Rightarrow> nat"
  fibonacciPivot :: "nat \<Rightarrow> nat \<Rightarrow> nat"

fun lowbit :: "nat \<Rightarrow> nat" where
  "lowbit i = (if i = 0 \<or> odd i then 1 else 2 * lowbit (i div 2))"

declare lowbit.simps [simp del]

definition binaryPivot :: "nat \<Rightarrow> nat" where
  "binaryPivot i = i - lowbit i"

definition treePivot :: "OpenShapes \<Rightarrow> TreeKind \<Rightarrow> nat \<Rightarrow> nat \<Rightarrow> nat" where
  "treePivot S kind n i =
     (case kind of
        FLAT \<Rightarrow> 0
      | BINARY \<Rightarrow> binaryPivot i
      | GREEDY \<Rightarrow> greedyPivot S n i
      | FIBONACCI \<Rightarrow> fibonacciPivot S n i)"

text \<open>
  Modelled from the spec: at step \<open>k\<close> the tiles are \<open>k\<close> to \<open>rows - 1\<close>, the
  relative index of tile \<open>m\<close> is \<open>m - k\<close>, a domain holds \<open>localSize\<close>
  consecutive relative indices and its root is the first of them. A row that is
  not the root of its domain follows the local tree of its domain; the root of a
  domain follows the global tree over the domains. The rotation that
  \<open>roundRobin\<close> asks for is an open question of the spec and is not modelled;
  \<open>domino\<close> changes the kernel of a step and not its pivot.
\<close>

definition extent :: "TreeDescriptor \<Rightarrow> nat \<Rightarrow> nat" where
  "extent T k = td_rows T - 1"

definition relativePivot :: "OpenShapes \<Rightarrow> TreeDescriptor \<Rightarrow> nat \<Rightarrow> nat \<Rightarrow> nat" where
  "relativePivot S T n i =
     (let a = td_localSize T; d = i div a; r = i mod a in
      if r \<noteq> 0
      then d * a + treePivot S (td_localKind T) (min a (n - d * a)) r
      else a * treePivot S (td_globalKind T) ((n + a - 1) div a) d)"

text \<open>
  Modelled from the spec: \<open>pivotOf\<close> fails with \<open>OutOfRangeError\<close> if \<open>m \<le> k\<close> or
  \<open>m\<close> exceeds the extent of the step, and gives the pivot otherwise.
\<close>

definition pivotOf :: "OpenShapes \<Rightarrow> TreeDescriptor \<Rightarrow> nat \<Rightarrow> nat \<Rightarrow> ResolverError + nat" where
  "pivotOf S T k m =
     (if m \<le> k \<or> extent T k < m then Inl OutOfRangeError
      else Inr (k + relativePivot S T (td_rows T - k) (m - k)))"

text \<open>
  Modelled from the spec: the kernel of a step is \<open>DOUBLE\<close> where domino
  interleaving applies and \<open>PANEL\<close> elsewhere. Which steps cross the boundary of
  the local and the global tree at the first global level is not defined by the
  spec; it is the parameter \<open>crosses\<close>.
\<close>

definition kernelKind :: "(nat \<Rightarrow> nat \<Rightarrow> bool) \<Rightarrow> TreeDescriptor \<Rightarrow> nat \<Rightarrow> nat \<Rightarrow> KernelKind" where
  "kernelKind crosses T k m = (if td_domino T \<and> crosses k m then DOUBLE else PANEL)"

text \<open>
  Modelled from the spec: following \<open>pivotOf\<close> from a tile to the root \<open>k\<close> of
  the step, counting the hops. The fuel bounds the walk; \<^const>\<open>None\<close> says the
  root was not reached within it. \<open>maxHops\<close> is the largest count over the
  tiles of the step, with a fuel of \<open>rows\<close>.
\<close>

fun hops :: "OpenShapes \<Rightarrow> TreeDescriptor \<Rightarrow> nat \<Rightarrow> nat \<Rightarrow> nat \<Rightarrow> nat option" where
  "hops S T k 0 m = (if m = k then Some 0 else None)"
| "hops S T k (Suc fuel) m =
     (if m = k then Some 0
      else case pivotOf S T k m of
             Inl e \<Rightarrow> None
           | Inr p \<Rightarrow> map_option Suc (hops S T k fuel p))"

definition maxHops :: "OpenShapes \<Rightarrow> TreeDescriptor \<Rightarrow> nat \<Rightarrow> nat option" where
  "maxHops S T k =
     fold (\<lambda>m acc. case (acc, hops S T k (td_rows T) m) of
                      (Some b, Some h) \<Rightarrow> Some (max b h)
                    | _ \<Rightarrow> None)
          [Suc k ..< td_rows T] (Some 0)"

text \<open>
  Modelled from the spec: \<open>nextPeer\<close> gives the next tile that targets pivot
  \<open>p\<close>, scanning strictly after \<open>after\<close>, and \<open>NONE\<close> when there is none;
  \<open>prevPeer\<close> scans strictly before \<open>before\<close>, downwards. \<open>NONE\<close> as argument
  starts a traversal (from the end, for \<open>prevPeer\<close>). \<open>peersAfter\<close> and
  \<open>peersBefore\<close> are the driver's loops: they call the query with its last
  answer until it answers \<open>NONE\<close>.
\<close>

definition targets :: "OpenShapes \<Rightarrow> TreeDescriptor \<Rightarrow> nat \<Rightarrow> nat \<Rightarrow> nat \<Rightarrow> bool" where
  "targets S T k p m \<longleftrightarrow> pivotOf S T k m = Inr p"

definition nextPeer ::
  "OpenShapes \<Rightarrow> TreeDescriptor \<Rightarrow> nat \<Rightarrow> nat \<Rightarrow> nat option \<Rightarrow> nat option" where
  "nextPeer S T k p after =
     find (targets S T k p)
       [(case after of None \<Rightarrow> 0 | Some a \<Rightarrow> Suc a) ..< Suc (extent T k)]"

definition prevPeer ::
  "OpenShapes \<Rightarrow> TreeDescriptor \<Rightarrow> nat \<Rightarrow> nat \<Rightarrow> nat option \<Rightarrow> nat option" where
  "prevPeer S T k p before =
     find (targets S T k p)
       (rev [0 ..< (case before of None \<Rightarrow> Suc (extent T k) | Some b \<Rightarrow> b)])"

text \<open>Each answer of a scan lies in the range scanned, so both loops end.\<close>

lemma find_upt_Some:
  "find P [lo..<n] = Some m \<Longrightarrow>
     lo \<le> m \<and> m < n \<and> filter P [lo..<n] = m # filter P [Suc m..<n]"
proof (induction "n - lo" arbitrary: lo)
  case 0
  then show ?case by simp
next
  case (Suc d)
  then have lo: "lo < n" by simp
  then have unfold: "[lo..<n] = lo # [Suc lo..<n]" by (simp add: upt_conv_Cons)
  show ?case
  proof (cases "P lo")
    case True
    with Suc.prems unfold lo show ?thesis by simp
  next
    case False
    with Suc.prems unfold have "find P [Suc lo..<n] = Some m" by simp
    moreover from Suc.hyps have "d = n - Suc lo" by simp
    ultimately have "Suc lo \<le> m \<and> m < n
        \<and> filter P [Suc lo..<n] = m # filter P [Suc m..<n]"
      using Suc.hyps(1) by blast
    with False unfold show ?thesis by simp
  qed
qed

lemma find_rev_upt_Some:
  "find P (rev [0..<hi]) = Some m \<Longrightarrow>
     m < hi \<and> filter P [0..<hi] = filter P [0..<m] @ [m]"
proof (induction hi)
  case 0
  then show ?case by simp
next
  case (Suc h)
  show ?case
  proof (cases "P h")
    case True
    with Suc.prems show ?thesis by simp
  next
    case False
    with Suc.prems have "find P (rev [0..<h]) = Some m" by simp
    with Suc.IH have "m < h \<and> filter P [0..<h] = filter P [0..<m] @ [m]" by blast
    with False show ?thesis by simp
  qed
qed

lemma nextPeer_Some:
  "nextPeer S T k p after = Some m \<Longrightarrow>
     (case after of None \<Rightarrow> 0 | Some a \<Rightarrow> Suc a) \<le> m \<and> m < Suc (extent T k)"
  unfolding nextPeer_def using find_upt_Some [of "targets S T k p" _ "Suc (extent T k)" m]
  by blast

lemma prevPeer_Some:
  "prevPeer S T k p before = Some m \<Longrightarrow>
     m < (case before of None \<Rightarrow> Suc (extent T k) | Some b \<Rightarrow> b)"
  unfolding prevPeer_def using find_rev_upt_Some [of "targets S T k p" _ m]
  by blast

function peersAfter ::
  "OpenShapes \<Rightarrow> TreeDescriptor \<Rightarrow> nat \<Rightarrow> nat \<Rightarrow> nat option \<Rightarrow> nat list" where
  "peersAfter S T k p after =
     (case nextPeer S T k p after of
        None \<Rightarrow> []
      | Some m \<Rightarrow> m # peersAfter S T k p (Some m))"
  by pat_completeness auto
termination
proof (relation "measure (\<lambda>(S, T, k, p, after).
          case after of None \<Rightarrow> Suc (Suc (extent T k)) | Some a \<Rightarrow> Suc (extent T k) - a)")
  show "wf (measure (\<lambda>(S, T, k, p, after).
          case after of None \<Rightarrow> Suc (Suc (extent T k)) | Some a \<Rightarrow> Suc (extent T k) - a))"
    by simp
next
  fix S T k p after m
  assume "nextPeer S T k p after = Some m"
  from nextPeer_Some [OF this]
  show "((S, T, k, p, Some m), (S, T, k, p, after))
        \<in> measure (\<lambda>(S, T, k, p, after).
          case after of None \<Rightarrow> Suc (Suc (extent T k)) | Some a \<Rightarrow> Suc (extent T k) - a)"
    by (cases after) auto
qed

function peersBefore ::
  "OpenShapes \<Rightarrow> TreeDescriptor \<Rightarrow> nat \<Rightarrow> nat \<Rightarrow> nat option \<Rightarrow> nat list" where
  "peersBefore S T k p before =
     (case prevPeer S T k p before of
        None \<Rightarrow> []
      | Some m \<Rightarrow> m # peersBefore S T k p (Some m))"
  by pat_completeness auto
termination
proof (relation "measure (\<lambda>(S, T, k, p, before).
          case before of None \<Rightarrow> Suc (Suc (extent T k)) | Some b \<Rightarrow> b)")
  show "wf (measure (\<lambda>(S, T, k, p, before).
          case before of None \<Rightarrow> Suc (Suc (extent T k)) | Some b \<Rightarrow> b))"
    by simp
next
  fix S T k p before m
  assume "prevPeer S T k p before = Some m"
  from prevPeer_Some [OF this]
  show "((S, T, k, p, Some m), (S, T, k, p, before))
        \<in> measure (\<lambda>(S, T, k, p, before).
          case before of None \<Rightarrow> Suc (Suc (extent T k)) | Some b \<Rightarrow> b)"
    by (cases before) auto
qed

declare peersAfter.simps [simp del] peersBefore.simps [simp del]

text \<open>
  Modelled from the spec: the example scenario of the testable properties
  (8 rows, one domain, binary local tree of size 8, flat global tree, no
  domino); the column count and the round-robin flag are not given there.
\<close>

definition example_scenario :: "nat \<Rightarrow> bool \<Rightarrow> TreeDescriptor" where
  "example_scenario c rr =
     \<lparr> td_rows = 8, td_cols = c, td_domainGrid = (1, 1), td_localKind = BINARY,
       td_globalKind = FLAT, td_localSize = 8, td_domino = False, td_roundRobin = rr \<rparr>"

text \<open>
  Modelled from the spec: what the spec asks of every tree shape, a forest that
  reduces every row of the tree other than the root into the root: the pivot of
  such a row is a row of the tree, and following the pivots reaches index 0.
\<close>

definition reduces_into_root :: "(nat \<Rightarrow> nat) \<Rightarrow> nat \<Rightarrow> bool" where
  "reduces_into_root f n \<longleftrightarrow>
     (\<forall>i \<in> {0<..<n}. f i < n \<and> (\<exists>j \<in> {..<n}. (f ^^ j) i = 0))"

definition open_shapes_contract :: "OpenShapes \<Rightarrow> TreeDescriptor \<Rightarrow> bool" where
  "open_shapes_contract S T \<longleftrightarrow>
     (\<forall>n \<in> {..td_rows T}.
        reduces_into_root (greedyPivot S n) n \<and> reduces_into_root (fibonacciPivot S n) n)"

text \<open>
  One choice of the two open shapes, for the examples: a greedy tree that is flat
  and a Fibonacci tree that is a chain.
\<close>

definition example_shapes :: OpenShapes where
  "example_shapes = \<lparr> greedyPivot = (\<lambda>n i. 0), fibonacciPivot = (\<lambda>n i. i - 1) \<rparr>"

section \<open>Example inputs\<close>

definition example_dtypes :: parsec_matrix_dtypes where
  "example_dtypes =
     \<lparr> parsec_matrix_block_cyclic_type = 1, parsec_matrix_sym_block_cyclic_type = 2 \<rparr>"

definition example_matrix :: "32 word \<Rightarrow> int \<Rightarrow> int \<Rightarrow> parsec_tiled_matrix" where
  "example_matrix dt m n =
     \<lparr> desc_dtype = dt, desc_mtype = PARSEC_MATRIX_COMPLEX_DOUBLE, desc_myrank = 0,
       desc_mb = 4, desc_nb = 4, desc_m = m, desc_n = n,
       desc_mt = (m + 3) div 4, desc_nt = (n + 3) div 4,
       grid_rows = 1, grid_cols = 1, grid_krows = 1, grid_kcols = 1,
       grid_ip = 0, grid_jq = 0 \<rparr>"

section \<open>Results\<close>

subsection \<open>The traversals as filters\<close>

lemma find_None_filter: "find P xs = None \<Longrightarrow> filter P xs = []"
  by (induction xs) (auto split: if_splits)

lemma peersAfter_filter:
  "peersAfter S T k p after =
     filter (targets S T k p)
       [(case after of None \<Rightarrow> 0 | Some a \<Rightarrow> Suc a) ..< Suc (extent T k)]"
proof (induction S T k p after rule: peersAfter.induct)
  case (1 S T k p after)
  show ?case
  proof (cases "nextPeer S T k p after")
    case None
    then have "filter (targets S T k p)
        [(case after of None \<Rightarrow> 0 | Some a \<Rightarrow> Suc a) ..< Suc (extent T k)] = []"
      unfolding nextPeer_def by (rule find_None_filter)
    with None show ?thesis by (simp add: peersAfter.simps [of S T k p after])
  next
    case (Some m)
    then have "filter (targets S T k p)
        [(case after of None \<Rightarrow> 0 | Some a \<Rightarrow> Suc a) ..< Suc (extent T k)]
        = m # filter (targets S T k p) [Suc m ..< Suc (extent T k)]"
      using find_upt_Some [of "targets S T k p" _ "Suc (extent T k)" m]
      unfolding nextPeer_def by blast
    with Some "1.IH" [OF Some] show ?thesis
      by (simp add: peersAfter.simps [of S T k p after])
  qed
qed

lemma peersBefore_filter:
  "peersBefore S T k p before =
     rev (filter (targets S T k p)
       [0 ..< (case before of None \<Rightarrow> Suc (extent T k) | Some b \<Rightarrow> b)])"
proof (induction S T k p before rule: peersBefore.induct)
  case (1 S T k p before)
  show ?case
  proof (cases "prevPeer S T k p before")
    case None
    then have "filter (targets S T k p)
        (rev [0 ..< (case before of None \<Rightarrow> Suc (extent T k) | Some b \<Rightarrow> b)]) = []"
      unfolding prevPeer_def by (rule find_None_filter)
    then have "filter (targets S T k p)
        [0 ..< (case before of None \<Rightarrow> Suc (extent T k) | Some b \<Rightarrow> b)] = []"
      by (simp add: rev_filter [symmetric])
    with None show ?thesis by (simp add: peersBefore.simps [of S T k p before])
  next
    case (Some m)
    then have "filter (targets S T k p)
        [0 ..< (case before of None \<Rightarrow> Suc (extent T k) | Some b \<Rightarrow> b)]
        = filter (targets S T k p) [0 ..< m] @ [m]"
      using find_rev_upt_Some [of "targets S T k p" _ m]
      unfolding prevPeer_def by blast
    with Some "1.IH" [OF Some] show ?thesis
      by (simp add: peersBefore.simps [of S T k p before])
  qed
qed

subsection \<open>Forest validity, for shapes that meet their contract\<close>

text \<open>
  The flat and the binary shape meet the contract; the composition of local trees
  and a global tree then is a forest with the tile \<open>k\<close> as its only root, whatever
  the two open shapes are as long as they meet the contract too.
\<close>

lemma lowbit_pos: "0 < lowbit i"
  by (induction i rule: lowbit.induct) (subst lowbit.simps, simp)

lemma lowbit_le: "0 < i \<Longrightarrow> lowbit i \<le> i"
proof (induction i rule: lowbit.induct)
  case (1 i)
  show ?case
  proof (cases "odd i")
    case True
    with "1.prems" show ?thesis by (subst lowbit.simps) simp
  next
    case False
    with "1.prems" have "0 < i div 2" by (auto elim: evenE)
    with "1.IH" False "1.prems" have "lowbit (i div 2) \<le> i div 2" by simp
    with False "1.prems" show ?thesis by (subst lowbit.simps) (auto elim: evenE)
  qed
qed

lemma decreasing_reaches:
  assumes dec: "\<And>i. 0 < i \<Longrightarrow> i < n \<Longrightarrow> f i < i"
  shows "i < n \<Longrightarrow> \<exists>j\<le>i. (f ^^ j) i = 0"
proof (induction i rule: less_induct)
  case (less i)
  show ?case
  proof (cases "i = 0")
    case True
    then show ?thesis by simp
  next
    case False
    with less.prems dec have fi: "f i < i" by simp
    with less.prems less.IH [of "f i"] obtain j where "j \<le> f i" "(f ^^ j) (f i) = 0" by auto
    with fi have "Suc j \<le> i" "(f ^^ Suc j) i = 0" by (simp_all add: funpow_swap1)
    then show ?thesis by blast
  qed
qed

lemma decreasing_reduces:
  assumes dec: "\<And>i. 0 < i \<Longrightarrow> i < n \<Longrightarrow> f i < i"
  shows "reduces_into_root f n"
  unfolding reduces_into_root_def
proof
  fix i assume "i \<in> {0<..<n}"
  then have i: "0 < i" "i < n" by simp_all
  from decreasing_reaches [OF dec i(2)] obtain j where "j \<le> i" "(f ^^ j) i = 0" by blast
  with i dec [OF i] show "f i < n \<and> (\<exists>j \<in> {..<n}. (f ^^ j) i = 0)" by auto
qed

lemma treePivot_reduces:
  assumes "open_shapes_contract S T" "n \<le> td_rows T"
  shows "reduces_into_root (treePivot S kind n) n"
proof (cases kind)
  case FLAT
  have "reduces_into_root (\<lambda>i. 0) n" by (rule decreasing_reduces) simp
  with FLAT show ?thesis by (simp add: treePivot_def [abs_def])
next
  case BINARY
  have "reduces_into_root binaryPivot n"
  proof (rule decreasing_reduces)
    fix i :: nat assume "0 < i"
    with lowbit_pos [of i] lowbit_le [of i] show "binaryPivot i < i"
      by (simp add: binaryPivot_def)
  qed
  with BINARY show ?thesis by (simp add: treePivot_def [abs_def])
next
  case GREEDY
  with assms show ?thesis by (simp add: open_shapes_contract_def treePivot_def [abs_def])
next
  case FIBONACCI
  with assms show ?thesis by (simp add: open_shapes_contract_def treePivot_def [abs_def])
qed

lemma relativePivot_local:
  "0 < td_localSize T \<Longrightarrow> 0 < r \<Longrightarrow> r < td_localSize T \<Longrightarrow>
     relativePivot S T n (d * td_localSize T + r) =
       d * td_localSize T
       + treePivot S (td_localKind T) (min (td_localSize T) (n - d * td_localSize T)) r"
  by (simp add: relativePivot_def Let_def)

lemma relativePivot_global:
  "0 < td_localSize T \<Longrightarrow>
     relativePivot S T n (d * td_localSize T) =
       treePivot S (td_globalKind T) ((n + td_localSize T - Suc 0) div td_localSize T) d
       * td_localSize T"
  by (simp add: relativePivot_def Let_def)

lemma domains_count:
  "0 < n \<Longrightarrow> 0 < (a::nat) \<Longrightarrow> (n + a - Suc 0) div a = Suc ((n - Suc 0) div a)"
proof -
  assume n: "0 < n" and a: "0 < a"
  from n have "n + a - Suc 0 = (n - Suc 0) + a" by linarith
  then have "(n + a - Suc 0) div a = ((n - Suc 0) + a) div a" by (rule arg_cong)
  also from a have "\<dots> = Suc ((n - Suc 0) div a)" by simp
  finally show ?thesis .
qed

lemma domain_index_bound:
  "0 < (a::nat) \<Longrightarrow> d * a < n \<Longrightarrow> d < (n + a - Suc 0) div a"
proof -
  assume a: "0 < a" and lt: "d * a < n"
  then have "d * a \<le> n - Suc 0" by simp
  with a have "d \<le> (n - Suc 0) div a" by (simp add: less_eq_div_iff_mult_less_eq)
  moreover from lt have "0 < n" by simp
  ultimately show ?thesis using a by (simp add: domains_count)
qed

lemma domain_root_bound:
  "0 < (a::nat) \<Longrightarrow> 0 < n \<Longrightarrow> x < (n + a - Suc 0) div a \<Longrightarrow> x * a < n"
proof -
  assume a: "0 < a" and n: "0 < n" and "x < (n + a - Suc 0) div a"
  with domains_count [OF n a] have "x \<le> (n - Suc 0) div a" by simp
  then have "x * a \<le> (n - Suc 0) div a * a" by simp
  also have "\<dots> \<le> n - Suc 0" by simp
  finally show ?thesis using n by simp
qed

lemma local_reaches_domain_root:
  assumes a: "0 < td_localSize T"
    and s: "s = min (td_localSize T) (n - d * td_localSize T)"
    and closed: "\<And>r. 0 < r \<Longrightarrow> r < s \<Longrightarrow> treePivot S (td_localKind T) s r < s"
  shows "(treePivot S (td_localKind T) s ^^ j) r = 0 \<Longrightarrow> r < s \<Longrightarrow>
     \<exists>j'. (relativePivot S T n ^^ j') (d * td_localSize T + r) = d * td_localSize T"
proof (induction j arbitrary: r)
  case 0
  then have "(relativePivot S T n ^^ 0) (d * td_localSize T + r) = d * td_localSize T" by simp
  then show ?case by blast
next
  case (Suc j)
  show ?case
  proof (cases "r = 0")
    case True
    then have "(relativePivot S T n ^^ 0) (d * td_localSize T + r) = d * td_localSize T"
      by simp
    then show ?thesis by blast
  next
    case False
    with Suc.prems closed have lt: "treePivot S (td_localKind T) s r < s" by simp
    from Suc.prems have "(treePivot S (td_localKind T) s ^^ j)
        (treePivot S (td_localKind T) s r) = 0"
      by (simp add: funpow_swap1)
    from Suc.IH [OF this lt] obtain j' where
      j': "(relativePivot S T n ^^ j')
             (d * td_localSize T + treePivot S (td_localKind T) s r) = d * td_localSize T"
      by blast
    from False Suc.prems s have "0 < r" "r < td_localSize T" by simp_all
    with a s have "relativePivot S T n (d * td_localSize T + r) =
        d * td_localSize T + treePivot S (td_localKind T) s r"
      by (simp add: relativePivot_local)
    with j' have "(relativePivot S T n ^^ Suc j') (d * td_localSize T + r)
        = d * td_localSize T"
      by (simp add: funpow_swap1)
    then show ?thesis by blast
  qed
qed

lemma global_reaches_root:
  assumes a: "0 < td_localSize T"
    and D: "D = (n + td_localSize T - Suc 0) div td_localSize T"
    and closed: "\<And>d. 0 < d \<Longrightarrow> d < D \<Longrightarrow> treePivot S (td_globalKind T) D d < D"
  shows "(treePivot S (td_globalKind T) D ^^ j) d = 0 \<Longrightarrow> d < D \<Longrightarrow>
     \<exists>j'. (relativePivot S T n ^^ j') (d * td_localSize T) = 0"
proof (induction j arbitrary: d)
  case 0
  then have "(relativePivot S T n ^^ 0) (d * td_localSize T) = 0" by simp
  then show ?case by blast
next
  case (Suc j)
  show ?case
  proof (cases "d = 0")
    case True
    then have "(relativePivot S T n ^^ 0) (d * td_localSize T) = 0" by simp
    then show ?thesis by blast
  next
    case False
    with Suc.prems closed have lt: "treePivot S (td_globalKind T) D d < D" by simp
    from Suc.prems have "(treePivot S (td_globalKind T) D ^^ j)
        (treePivot S (td_globalKind T) D d) = 0"
      by (simp add: funpow_swap1)
    from Suc.IH [OF this lt] obtain j' where
      j': "(relativePivot S T n ^^ j')
             (treePivot S (td_globalKind T) D d * td_localSize T) = 0"
      by blast
    from a D have "relativePivot S T n (d * td_localSize T) =
        treePivot S (td_globalKind T) D d * td_localSize T"
      by (simp add: relativePivot_global)
    with j' have "(relativePivot S T n ^^ Suc j') (d * td_localSize T) = 0"
      by (simp add: funpow_swap1)
    then show ?thesis by blast
  qed
qed

lemma relativePivot_forest:
  assumes a: "0 < td_localSize T" and shapes: "open_shapes_contract S T"
    and n: "n \<le> td_rows T" and i: "0 < i" "i < n"
  shows "relativePivot S T n i < n \<and> (\<exists>j. (relativePivot S T n ^^ j) i = 0)"
proof -
  let ?a = "td_localSize T"
  let ?L = "treePivot S (td_localKind T) (min ?a (n - i div ?a * ?a))"
  let ?G = "treePivot S (td_globalKind T) ((n + ?a - Suc 0) div ?a)"
  let ?F = "relativePivot S T n"
  define d where "d = i div ?a"
  define r where "r = i mod ?a"
  define s where "s = min ?a (n - d * ?a)"
  define D where "D = (n + ?a - Suc 0) div ?a"
  have i_eq: "d * ?a + r = i" by (simp add: d_def r_def)
  have r_lt: "r < ?a" using a by (simp add: r_def)
  have da_lt: "d * ?a < n" using i_eq i(2) by linarith
  have r_s: "r < s" using r_lt i(2) i_eq unfolding s_def by linarith
  have s_le: "s \<le> td_rows T" using n unfolding s_def by linarith
  have d_D: "d < D" unfolding D_def by (rule domain_index_bound [OF a da_lt])
  have n_pos: "0 < n" using i by simp
  have D_le: "D \<le> td_rows T"
  proof -
    have "(n - Suc 0) div ?a \<le> n - Suc 0" by (rule div_le_dividend)
    then have "Suc ((n - Suc 0) div ?a) \<le> n" using n_pos by linarith
    then show ?thesis unfolding D_def domains_count [OF n_pos a] using n by linarith
  qed
  have Lred: "reduces_into_root (treePivot S (td_localKind T) s) s"
    by (rule treePivot_reduces [OF shapes s_le])
  have Gred: "reduces_into_root (treePivot S (td_globalKind T) D) D"
    by (rule treePivot_reduces [OF shapes D_le])
  have Lclosed: "treePivot S (td_localKind T) s x < s" if "0 < x" "x < s" for x
    using Lred that unfolding reduces_into_root_def by auto
  have Gclosed: "treePivot S (td_globalKind T) D x < D" if "0 < x" "x < D" for x
    using Gred that unfolding reduces_into_root_def by auto
  have local_step: "?F i = d * ?a + treePivot S (td_localKind T) s r" if "r \<noteq> 0"
  proof -
    from that have "0 < r" by simp
    from relativePivot_local [OF a this r_lt, of S n d] show ?thesis
      unfolding i_eq s_def .
  qed
  have global_step: "?F (d * ?a) = treePivot S (td_globalKind T) D d * ?a"
    using relativePivot_global [OF a, of S n d] unfolding D_def .
  have closure: "?F i < n"
  proof (cases "r = 0")
    case True
    with i_eq have i_root: "i = d * ?a" by simp
    with i(1) have "0 < d" by (cases d) simp_all
    from Gclosed [OF this d_D] have "treePivot S (td_globalKind T) D d * ?a < n"
      unfolding D_def by (rule domain_root_bound [OF a n_pos])
    with global_step i_root show ?thesis by simp
  next
    case False
    then have "0 < r" by simp
    from Lclosed [OF this r_s] have "treePivot S (td_localKind T) s r < n - d * ?a"
      unfolding s_def by linarith
    with local_step [OF False] show ?thesis by linarith
  qed
  have step1: "\<exists>j. (?F ^^ j) i = d * ?a"
  proof (cases "r = 0")
    case True
    with i_eq have "(?F ^^ 0) i = d * ?a" by simp
    then show ?thesis by blast
  next
    case False
    then have "r \<in> {0<..<s}" using r_s by simp
    with Lred obtain j where j: "(treePivot S (td_localKind T) s ^^ j) r = 0"
      unfolding reduces_into_root_def by blast
    have "\<exists>j'. (?F ^^ j') (d * ?a + r) = d * ?a"
      by (rule local_reaches_domain_root [OF a s_def Lclosed j r_s])
    then show ?thesis unfolding i_eq .
  qed
  have step2: "\<exists>j. (?F ^^ j) (d * ?a) = 0"
  proof (cases "d = 0")
    case True
    then have "(?F ^^ 0) (d * ?a) = 0" by simp
    then show ?thesis by blast
  next
    case False
    then have "d \<in> {0<..<D}" using d_D by simp
    with Gred obtain j where j: "(treePivot S (td_globalKind T) D ^^ j) d = 0"
      unfolding reduces_into_root_def by blast
    show ?thesis
      by (rule global_reaches_root [OF a _ Gclosed j d_D])
         (simp add: D_def)
  qed
  from step1 obtain j1 where j1: "(?F ^^ j1) i = d * ?a" by blast
  from step2 obtain j2 where j2: "(?F ^^ j2) (d * ?a) = 0" by blast
  from j1 j2 have "(?F ^^ (j2 + j1)) i = 0" by (simp add: funpow_add)
  with closure show ?thesis by blast
qed

lemma pivotOf_in_range:
  "k < m \<Longrightarrow> m \<le> extent T k \<Longrightarrow>
     pivotOf S T k m = Inr (k + relativePivot S T (td_rows T - k) (m - k))"
  by (simp add: pivotOf_def)

lemma hops_mono: "hops S T k fuel m = Some h \<Longrightarrow> hops S T k (Suc fuel) m = Some h"
proof (induction fuel arbitrary: m h)
  case 0
  then show ?case by (simp split: if_splits)
next
  case (Suc fuel)
  show ?case
  proof (cases "m = k")
    case True
    with Suc.prems show ?thesis by simp
  next
    case False
    with Suc.prems obtain p h' where p: "pivotOf S T k m = Inr p"
      and h': "hops S T k fuel p = Some h'" and h: "h = Suc h'"
      by (auto split: sum.splits)
    from Suc.IH [OF h'] have "hops S T k (Suc fuel) p = Some h'" .
    with False p h show ?thesis by (simp del: hops.simps add: hops.simps(2) [of S T k "Suc fuel" m])
  qed
qed

lemma hops_reaches_root:
  assumes closed: "\<And>x. 0 < x \<Longrightarrow> x < td_rows T - k \<Longrightarrow>
      relativePivot S T (td_rows T - k) x < td_rows T - k"
  shows "(relativePivot S T (td_rows T - k) ^^ j) i = 0 \<Longrightarrow> i < td_rows T - k \<Longrightarrow>
     \<exists>h. hops S T k j (k + i) = Some h"
proof (induction j arbitrary: i)
  case 0
  then show ?case by simp
next
  case (Suc j)
  show ?case
  proof (cases "i = 0")
    case True
    then show ?thesis by simp
  next
    case False
    with Suc.prems closed have lt: "relativePivot S T (td_rows T - k) i < td_rows T - k"
      by simp
    from Suc.prems have "(relativePivot S T (td_rows T - k) ^^ j)
        (relativePivot S T (td_rows T - k) i) = 0"
      by (simp add: funpow_swap1)
    from Suc.IH [OF this lt] obtain h where
      h: "hops S T k j (k + relativePivot S T (td_rows T - k) i) = Some h" by blast
    from False Suc.prems have "k < k + i" "k + i \<le> extent T k"
      by (simp_all add: extent_def)
    from pivotOf_in_range [OF this]
    have "pivotOf S T k (k + i) = Inr (k + relativePivot S T (td_rows T - k) i)" by simp
    with False h have "hops S T k (Suc j) (k + i) = Some (Suc h)" by simp
    then show ?thesis by blast
  qed
qed

lemma pivot_forest_under_contract:
  assumes valid: "valid_descriptor T" and shapes: "open_shapes_contract S T"
    and m: "k < m" "m \<le> extent T k"
  shows "(\<exists>!p. pivotOf S T k m = Inr p)
     \<and> (\<exists>p fuel h. pivotOf S T k m = Inr p \<and> k \<le> p \<and> p \<le> extent T k
           \<and> hops S T k fuel m = Some (Suc h) \<and> hops S T k fuel p = Some h)
     \<and> pivotOf S T k k = Inl OutOfRangeError"
proof -
  let ?n = "td_rows T - k"
  let ?F = "relativePivot S T ?n"
  let ?i = "m - k"
  from valid have a: "0 < td_localSize T" by (simp add: valid_descriptor_def)
  from m have i: "0 < ?i" "?i < ?n" by (simp_all add: extent_def)
  have closed: "?F x < ?n" if "0 < x" "x < ?n" for x
    using relativePivot_forest [OF a shapes _ that] by simp
  from relativePivot_forest [OF a shapes _ i] obtain j where
    lt: "?F ?i < ?n" and j: "(?F ^^ j) ?i = 0" by auto
  from i j obtain j' where j': "j = Suc j'" by (cases j) auto
  with j have "(?F ^^ j') (?F ?i) = 0" by (simp add: funpow_swap1)
  from hops_reaches_root [OF closed this lt] obtain h where
    h: "hops S T k j' (k + ?F ?i) = Some h" by blast
  have piv: "pivotOf S T k m = Inr (k + ?F ?i)" by (rule pivotOf_in_range [OF m])
  from m have "m \<noteq> k" by simp
  with piv h have hm: "hops S T k (Suc j') m = Some (Suc h)" by simp
  from hops_mono [OF h] have hp: "hops S T k (Suc j') (k + ?F ?i) = Some h" .
  from lt m have range: "k \<le> k + ?F ?i" "k + ?F ?i \<le> extent T k"
    by (simp_all add: extent_def)
  have "\<exists>!p. pivotOf S T k m = Inr p" using piv by simp
  moreover have "\<exists>p fuel h. pivotOf S T k m = Inr p \<and> k \<le> p \<and> p \<le> extent T k
           \<and> hops S T k fuel m = Some (Suc h) \<and> hops S T k fuel p = Some h"
    using piv range hm hp by blast
  moreover have "pivotOf S T k k = Inl OutOfRangeError" by (simp add: pivotOf_def)
  ultimately show ?thesis by blast
qed

subsection \<open>The example scenario\<close>

lemma lowbit_values:
  "lowbit (Suc 0) = 1" "lowbit 2 = 2" "lowbit 3 = 1" "lowbit 4 = 4"
  "lowbit 5 = 1" "lowbit 6 = 2" "lowbit 7 = 1"
  by (simp_all add: lowbit.simps)

lemma scenario_pivots:
  "map (pivotOf S (example_scenario c rr) 0) [1, 2, 3, 4, 5, 6, 7] =
     map Inr [0, 0, 2, 0, 4, 4, 6]"
  by (simp add: pivotOf_def example_scenario_def extent_def relativePivot_def treePivot_def
      binaryPivot_def lowbit_values)

lemma scenario_hops:
  "map (hops S (example_scenario c rr) 0 8) [1, 2, 3, 4, 5, 6, 7] =
     map Some [1, 1, 2, 1, 2, 2, 3]"
  by code_simp

lemma scenario_maxHops: "maxHops S (example_scenario c rr) 0 = Some 3"
  by code_simp

subsection \<open>The claims\<close>

text \<open>
  C10. \<^verbatim>\<open>dplasma_zgesv_1d\<close> returns the \<^verbatim>\<open>info\<close> of the factorization; the solve is
  called exactly when that \<^verbatim>\<open>info\<close> is 0, and then the data is what the solve makes
  of the factorized data; when \<^verbatim>\<open>info\<close> is not 0 no solve is called and the data
  is left as the factorization left it.
\<close>

theorem zgesv_1d_returns_factorization_info:
  "fst (dplasma_zgesv_1d getrf getrs w) = fst (getrf w)
   \<and> (Call_zgetrs dplasmaNoTrans \<in> set (snd (snd (dplasma_zgesv_1d getrf getrs w)))
        \<longleftrightarrow> fst (getrf w) = 0)
   \<and> snd (snd (dplasma_zgesv_1d getrf getrs w)) =
       (if fst (getrf w) = 0 then [Call_zgetrf_1d, Call_zgetrs dplasmaNoTrans]
        else [Call_zgetrf_1d])
   \<and> fst (snd (dplasma_zgesv_1d getrf getrs w)) =
       (if fst (getrf w) = 0 then getrs dplasmaNoTrans (snd (getrf w)) else snd (getrf w))"
  by (simp add: dplasma_zgesv_1d_def split: prod.splits)

theorem zgesv_1d_returns_factorization_info_witness:
  "dplasma_zgesv_1d (\<lambda>w::nat. (0, w + 1)) (\<lambda>t w. 2 * w) 5 =
     (0, 12, [Call_zgetrf_1d, Call_zgetrs dplasmaNoTrans])
   \<and> dplasma_zgesv_1d (\<lambda>w::nat. (3, w + 1)) (\<lambda>t w. 2 * w) 5 = (3, 6, [Call_zgetrf_1d])"
  using zgesv_1d_returns_factorization_info [of "\<lambda>w::nat. (0, w + 1)" "\<lambda>t w. 2 * w" 5]
        zgesv_1d_returns_factorization_info [of "\<lambda>w::nat. (3, w + 1)" "\<lambda>t w. 2 * w" 5]
  by (simp add: prod_eq_iff)

text \<open>
  C8. \<^verbatim>\<open>dplasma_zheev_New\<close> returns a taskpool exactly for \<^verbatim>\<open>jobz = dplasmaNoVec\<close> and
  \<^verbatim>\<open>uplo = dplasmaLower\<close>. For every other pair, the legal values \<^verbatim>\<open>dplasmaVec\<close>
  and \<^verbatim>\<open>dplasmaUpper\<close> among them, it returns \<^verbatim>\<open>NULL\<close> and leaves -1 (the \<^verbatim>\<open>jobz\<close>
  branches) or -2 (the \<^verbatim>\<open>uplo\<close> branches) in \<^verbatim>\<open>*info\<close>; and \<^verbatim>\<open>dplasma_zheev\<close>
  returns -101 when its own two checks pass and the constructor returns \<^verbatim>\<open>NULL\<close>.
\<close>

theorem zheev_New_only_NoVec_Lower:
  "(fst (dplasma_zheev_New jobz uplo A W) \<noteq> None
      \<longleftrightarrow> jobz = dplasmaNoVec \<and> uplo = dplasmaLower)
   \<and> (fst (dplasma_zheev_New jobz uplo A W) = None \<longrightarrow>
        fst (snd (dplasma_zheev_New jobz uplo A W)) =
          (if illegal_jobz jobz \<or> (\<not> illegal_uplo uplo \<and> jobz = dplasmaVec) then - 1 else - 2))
   \<and> (\<not> illegal_jobz jobz \<and> \<not> illegal_uplo uplo
        \<and> fst (dplasma_zheev_New jobz uplo A W) = None \<longrightarrow>
        fst (dplasma_zheev jobz uplo A W) = - 101)"
  by (auto simp: dplasma_zheev_New_def dplasma_zheev_def illegal_jobz_def illegal_uplo_def
           Let_def)

theorem zheev_New_only_NoVec_Lower_witness:
  "fst (dplasma_zheev_New dplasmaVec dplasmaLower (example_matrix 1 8 8) (example_matrix 1 8 8))
     = None
   \<and> fst (snd (dplasma_zheev_New dplasmaVec dplasmaLower
                 (example_matrix 1 8 8) (example_matrix 1 8 8))) = - 1
   \<and> fst (dplasma_zheev dplasmaVec dplasmaLower (example_matrix 1 8 8) (example_matrix 1 8 8))
     = - 101
   \<and> fst (snd (dplasma_zheev_New dplasmaNoVec dplasmaUpper
                 (example_matrix 1 8 8) (example_matrix 1 8 8))) = - 2
   \<and> fst (dplasma_zheev dplasmaNoVec dplasmaUpper (example_matrix 1 8 8) (example_matrix 1 8 8))
     = - 101
   \<and> fst (dplasma_zheev_New dplasmaNoVec dplasmaLower
            (example_matrix 1 8 8) (example_matrix 1 8 8)) \<noteq> None"
  using zheev_New_only_NoVec_Lower
          [of dplasmaVec dplasmaLower "example_matrix 1 8 8" "example_matrix 1 8 8"]
        zheev_New_only_NoVec_Lower
          [of dplasmaNoVec dplasmaUpper "example_matrix 1 8 8" "example_matrix 1 8 8"]
        zheev_New_only_NoVec_Lower
          [of dplasmaNoVec dplasmaLower "example_matrix 1 8 8" "example_matrix 1 8 8"]
  by (simp add: illegal_jobz_def illegal_uplo_def)

text \<open>
  C9. For a matrix with \<^verbatim>\<open>m \<noteq> n\<close> that passes the norm, \<^verbatim>\<open>uplo\<close> and descriptor-type
  checks, \<^verbatim>\<open>dplasma_zlansy\<close> returns -5 with nothing but the error report in its
  trace, while \<^verbatim>\<open>dplasma_zlansy_New\<close> on the same arguments allocates the task
  distribution and returns a taskpool.
\<close>

theorem zlansy_rejects_nonsquare_New_accepts:
  "\<not> illegal_norm nrm \<Longrightarrow> \<not> illegal_uplo uplo \<Longrightarrow> \<not> not_block_or_sym_cyclic K A
   \<Longrightarrow> desc_m A \<noteq> desc_n A
   \<Longrightarrow> dplasma_zlansy K run nrm uplo A =
         (- 5, [dplasma_error ''dplasma_zlansy'' ''illegal matrix A (not square)''])
       \<and> fst (dplasma_zlansy_New K nrm uplo A) \<noteq> None
       \<and> malloc_block_cyclic \<in> set (snd (dplasma_zlansy_New K nrm uplo A))"
  by (simp add: dplasma_zlansy_def dplasma_zlansy_New_def Let_def split: prod.splits)

theorem zlansy_rejects_nonsquare_New_accepts_witness:
  "dplasma_zlansy example_dtypes (\<lambda>tp. 7) dplasmaMaxNorm dplasmaUpper (example_matrix 1 8 4) =
         (- 5, [dplasma_error ''dplasma_zlansy'' ''illegal matrix A (not square)''])
   \<and> fst (dplasma_zlansy_New example_dtypes dplasmaMaxNorm dplasmaUpper (example_matrix 1 8 4))
       \<noteq> None"
  using zlansy_rejects_nonsquare_New_accepts
          [of dplasmaMaxNorm dplasmaUpper example_dtypes "example_matrix 1 8 4" "\<lambda>tp. 7"]
  by (simp add: illegal_norm_def illegal_uplo_def not_block_or_sym_cyclic_def
        example_dtypes_def example_matrix_def)

text \<open>
  C6. \<^verbatim>\<open>dplasma_zlantr_New\<close> and \<^verbatim>\<open>dplasma_zlantr\<close> do not refuse an invalid \<^verbatim>\<open>uplo\<close>.
  Their documentation allows \<^verbatim>\<open>dplasmaUpper\<close> and \<^verbatim>\<open>dplasmaLower\<close> and promises
  \<^verbatim>\<open>NULL\<close> for incorrect parameters, but the two functions test the norm and the
  descriptor type only. Called with the max norm, a \<^verbatim>\<open>uplo\<close> of 0, a non-unit
  diagonal and a block-cyclic matrix of 8 by 8 in tiles of 4 by 4, the
  constructor allocates the task distribution and returns a taskpool built with
  that \<^verbatim>\<open>uplo\<close>, and the blocking wrapper enqueues it, waits, destroys it and
  returns what the run stored; no error is reported. On the same norm, \<^verbatim>\<open>uplo\<close>
  and matrix, \<^verbatim>\<open>dplasma_zlansy_New\<close> returns \<^verbatim>\<open>NULL\<close> with the report of an illegal
  \<^verbatim>\<open>uplo\<close> and \<^verbatim>\<open>dplasma_zlansy\<close> returns -3.
\<close>

theorem zlantr_runs_with_illegal_uplo:
  "illegal_uplo (dplasma_enum_other 0)
   \<and> fst (dplasma_zlantr_New example_dtypes dplasmaMaxNorm (dplasma_enum_other 0)
            dplasmaNonUnit (example_matrix 1 8 8)) =
       Some (parsec_zlange_frb_cyclic_new 1 1 dplasmaMaxNorm (dplasma_enum_other 0)
               dplasmaNonUnit (example_matrix 1 8 8) (Tdist_init (example_matrix 1 8 8) 2 1))
   \<and> malloc_block_cyclic
       \<in> set (snd (dplasma_zlantr_New example_dtypes dplasmaMaxNorm (dplasma_enum_other 0)
                     dplasmaNonUnit (example_matrix 1 8 8)))
   \<and> error_reports (snd (dplasma_zlantr_New example_dtypes dplasmaMaxNorm
                           (dplasma_enum_other 0) dplasmaNonUnit (example_matrix 1 8 8))) = []
   \<and> fst (dplasma_zlantr example_dtypes (\<lambda>tp. 7) dplasmaMaxNorm (dplasma_enum_other 0)
            dplasmaNonUnit (example_matrix 1 8 8)) = 7
   \<and> parsec_context_add_taskpool
         (parsec_zlange_frb_cyclic_new 1 1 dplasmaMaxNorm (dplasma_enum_other 0)
            dplasmaNonUnit (example_matrix 1 8 8) (Tdist_init (example_matrix 1 8 8) 2 1))
       \<in> set (snd (dplasma_zlantr example_dtypes (\<lambda>tp. 7) dplasmaMaxNorm
                     (dplasma_enum_other 0) dplasmaNonUnit (example_matrix 1 8 8)))
   \<and> error_reports (snd (dplasma_zlantr example_dtypes (\<lambda>tp. 7) dplasmaMaxNorm
                           (dplasma_enum_other 0) dplasmaNonUnit (example_matrix 1 8 8))) = []
   \<and> dplasma_zlansy_New example_dtypes dplasmaMaxNorm (dplasma_enum_other 0)
        (example_matrix 1 8 8) =
       (None, [dplasma_error ''dplasma_zlansy'' ''illegal value of uplo''])
   \<and> dplasma_zlansy example_dtypes (\<lambda>tp. 7) dplasmaMaxNorm (dplasma_enum_other 0)
        (example_matrix 1 8 8) =
       (- 3, [dplasma_error ''dplasma_zlansy'' ''illegal value of uplo''])"
  by (simp add: illegal_uplo_def dplasma_zlantr_def dplasma_zlantr_New_def
        dplasma_zlansy_def dplasma_zlansy_New_def illegal_norm_def not_block_cyclic_def
        error_reports_def dplasma_imax_def example_dtypes_def example_matrix_def Let_def)


text \<open>
  C2. For every descriptor, step \<open>k\<close> and pivot \<open>p\<close>: the tiles that repeated
  calls of \<open>nextPeer\<close> give, reversed, are the tiles that repeated calls of
  \<open>prevPeer\<close> give when started from \<open>NONE\<close>, that is from the end.
\<close>

theorem prevPeer_traversal_is_reverse:
  "rev (peersAfter S T k p None) = peersBefore S T k p None"
  by (simp add: peersAfter_filter peersBefore_filter)

theorem prevPeer_traversal_is_reverse_witness:
  "peersAfter example_shapes (example_scenario 8 False) 0 4 None = [5, 6]
   \<and> peersBefore example_shapes (example_scenario 8 False) 0 4 None = [6, 5]"
proof -
  have "peersAfter example_shapes (example_scenario 8 False) 0 4 None = [5, 6]"
    by (simp add: peersAfter_filter targets_def pivotOf_def example_scenario_def extent_def
        relativePivot_def treePivot_def binaryPivot_def lowbit_values upt_rec)
  with prevPeer_traversal_is_reverse [of example_shapes "example_scenario 8 False" 0 4]
  show ?thesis by simp
qed

text \<open>
  C3. In the example scenario (8 rows, one domain, binary local tree of size 8,
  flat global tree, no domino), at step 0: the pivots of the tiles 1 to 7 are
  0, 0, 2, 0, 4, 4, 6; every kernel is \<open>PANEL\<close>; the hops from the tiles 1 to 7 to
  tile 0 are 1, 1, 2, 1, 2, 2, 3, the largest being 3.
\<close>

theorem binary_scenario:
  "valid_descriptor (example_scenario c rr)
   \<and> map (pivotOf S (example_scenario c rr) 0) [1, 2, 3, 4, 5, 6, 7] =
       map Inr [0, 0, 2, 0, 4, 4, 6]
   \<and> (\<forall>m. kernelKind crosses (example_scenario c rr) 0 m = PANEL)
   \<and> map (hops S (example_scenario c rr) 0 8) [1, 2, 3, 4, 5, 6, 7] =
       map Some [1, 1, 2, 1, 2, 2, 3]
   \<and> maxHops S (example_scenario c rr) 0 = Some 3"
  using scenario_pivots [of S c rr] scenario_hops [of S c rr] scenario_maxHops [of S c rr]
  by (simp add: valid_descriptor_def kernelKind_def example_scenario_def)

theorem binary_scenario_witness:
  "pivotOf example_shapes (example_scenario 8 False) 0 7 = Inr 6
   \<and> kernelKind (\<lambda>k m. True) (example_scenario 8 False) 0 7 = PANEL
   \<and> hops example_shapes (example_scenario 8 False) 0 8 7 = Some 3
   \<and> maxHops example_shapes (example_scenario 8 False) 0 = Some 3"
  using binary_scenario [of 8 False example_shapes "\<lambda>k m. True"]
  by simp

text \<open>
  C5. \<open>pivotOf\<close> fails with \<open>OutOfRangeError\<close> exactly when \<open>m \<le> k\<close> or \<open>m\<close>
  exceeds the extent of the step; exactly for the other pairs it returns a
  pivot, one only, and it fails with no other error.
\<close>

theorem pivotOf_out_of_range:
  "(pivotOf S T k m = Inl OutOfRangeError) = (m \<le> k \<or> extent T k < m)
   \<and> (\<exists>!p. pivotOf S T k m = Inr p) = (k < m \<and> m \<le> extent T k)
   \<and> pivotOf S T k m \<noteq> Inl ConfigError"
  by (auto simp: pivotOf_def)

theorem pivotOf_out_of_range_witness:
  "pivotOf example_shapes (example_scenario 8 False) 3 3 = Inl OutOfRangeError
   \<and> pivotOf example_shapes (example_scenario 8 False) 3 8 = Inl OutOfRangeError
   \<and> (\<exists>!p. pivotOf example_shapes (example_scenario 8 False) 3 7 = Inr p)"
  using pivotOf_out_of_range [of example_shapes "example_scenario 8 False" 3 3]
        pivotOf_out_of_range [of example_shapes "example_scenario 8 False" 3 8]
        pivotOf_out_of_range [of example_shapes "example_scenario 8 False" 3 7]
  by (simp add: extent_def example_scenario_def)

end
